theory Spec2Isabelle
  imports Main
begin

section \<open>The PyOllama editor extension: command bridge and chat session\<close>

text \<open>
  A shallow embedding of \<^verbatim>\<open>vscode-ollama-extension/src/extension.ts\<close>.
  The editor host, the configuration store and the child process are inputs of the
  model; everything the extension does to them is recorded, in order, as a list of
  effects. JavaScript strings are modelled as \<^typ>\<open>string\<close> (code units below 256).
\<close>

subsection \<open>JavaScript string primitives\<close>

text \<open>\<^verbatim>\<open>args.join(' ')\<close>: the elements separated by one space; the empty array gives
  the empty string.\<close>

fun join_sp :: "string list \<Rightarrow> string" where
  "join_sp [] = []"
| "join_sp [x] = x"
| "join_sp (x # y # ys) = x @ '' '' @ join_sp (y # ys)"

text \<open>The white space and line terminators of ECMAScript that fit in one byte:
  TAB, LF, VT, FF, CR, SP and NBSP.\<close>

definition is_whitespace :: "char \<Rightarrow> bool" where
  "is_whitespace c = (c = CHR 0x09 \<or> c = CHR 0x0A \<or> c = CHR 0x0B \<or> c = CHR 0x0C
                        \<or> c = CHR 0x0D \<or> c = CHR 0x20 \<or> c = CHR 0xA0)"

text \<open>\<^verbatim>\<open>String.prototype.trim\<close> removes white space at both ends;
  \<^verbatim>\<open>trimEnd\<close> only at the end.\<close>

definition trimEnd :: "string \<Rightarrow> string" where
  "trimEnd s = rev (dropWhile is_whitespace (rev s))"

definition trim :: "string \<Rightarrow> string" where
  "trim s = trimEnd (dropWhile is_whitespace s)"

subsection \<open>Configuration\<close>

text \<open>The \<^verbatim>\<open>pyollama\<close> section of the workspace configuration; a setting that is
  not set is \<^term>\<open>None\<close> and \<^verbatim>\<open>config.get(key, default)\<close> falls back to the default.\<close>

record configuration =
  pythonPath :: "string option"
  modelDir :: "string option"

definition getPythonPath :: "configuration \<Rightarrow> string" where
  "getPythonPath config = (case pythonPath config of None \<Rightarrow> ''python'' | Some p \<Rightarrow> p)"

definition getModelDir :: "configuration \<Rightarrow> string" where
  "getModelDir config = (case modelDir config of None \<Rightarrow> ''~/.ollama/models'' | Some d \<Rightarrow> d)"

subsection \<open>The child process\<close>

text \<open>
  What the operating system does with a command line: the process cannot be spawned
  (with the system's message), or it runs and exits with a status, having written its
  standard output and standard error. A process that never exits, or that a signal
  from elsewhere ends, has no value here.
\<close>

datatype child = SpawnError string | Exit int string string

text \<open>
  \<^verbatim>\<open>exec\<close> is called without options, so its default \<^verbatim>\<open>maxBuffer\<close> of 1 MiB
  holds for each of the two streams. The streams are read as UTF-8 text and measured in
  bytes: a code unit below 128 is one byte, one from 128 to 255 is two.
\<close>

definition maxBuffer :: nat where
  "maxBuffer = 1024 * 1024"

definition byteLength :: "string \<Rightarrow> nat" where
  "byteLength s = sum_list (map (\<lambda>c. if of_char c < (128::nat) then 1 else 2) s)"

text \<open>
  \<^verbatim>\<open>execAsync = promisify(exec)\<close>. \<^term>\<open>Exit status out err\<close> is the process as it
  runs when all its output is read. \<^verbatim>\<open>exec\<close> stops reading and kills the process once
  a stream has passed \<^verbatim>\<open>maxBuffer\<close>, and the promise rejects with the message
  \<^verbatim>\<open><stream> maxBuffer length exceeded\<close>, whatever the status (when both streams pass
  the limit, the one that passes it first is named; standard output is taken to be that
  one). Otherwise the promise resolves with \<^verbatim>\<open>{stdout, stderr}\<close> when the process exits
  with status 0 and rejects for another status, with the message
  \<^verbatim>\<open>Command failed: <command>\n<stderr>\<close>. A rejection is \<^term>\<open>Inl\<close> of the message.
\<close>

definition execAsync :: "(string \<Rightarrow> child) \<Rightarrow> string \<Rightarrow> string + string \<times> string" where
  "execAsync os command =
     (case os command of
        SpawnError m \<Rightarrow> Inl m
      | Exit status out err \<Rightarrow>
          if maxBuffer < byteLength out then Inl ''stdout maxBuffer length exceeded''
          else if maxBuffer < byteLength err then Inl ''stderr maxBuffer length exceeded''
          else if status = 0 then Inr (out, err)
          else Inl (''Command failed: '' @ command @ [CHR 0x0A] @ err))"

subsection \<open>Messages between the chat view and the bridge\<close>

record message =
  mtype :: string
  mtext :: string

subsection \<open>Effects on the host\<close>

datatype effect =
    ShowInputBox string string
  | ShowInformationMessage string
  | ShowErrorMessage string
  | CreateWebviewPanel string string
  | Spawn string
  | ConsoleWarn string string
  | PostMessage message
  | EditInsert string

text \<open>The command lines handed to the process executor, in order.\<close>

fun spawned :: "effect list \<Rightarrow> string list" where
  "spawned [] = []"
| "spawned (Spawn c # es) = c # spawned es"
| "spawned (e # es) = spawned es"

fun panels :: "effect list \<Rightarrow> string list" where
  "panels [] = []"
| "panels (CreateWebviewPanel v t # es) = t # panels es"
| "panels (e # es) = panels es"

fun posted :: "effect list \<Rightarrow> message list" where
  "posted [] = []"
| "posted (PostMessage m # es) = m # posted es"
| "posted (e # es) = posted es"

subsection \<open>runPyOllamaCommand\<close>

text \<open>The command line of line 40: the two settings and the arguments are put into
  the template as they are.\<close>

definition command :: "configuration \<Rightarrow> string list \<Rightarrow> string" where
  "command config args =
     getPythonPath config @ '' -m pyollama --model-dir '' @ getModelDir config
       @ '' '' @ join_sp args"

text \<open>The result is \<^term>\<open>Inr\<close> of the returned string or \<^term>\<open>Inl\<close> of the message of
  the \<^verbatim>\<open>Error\<close> thrown.\<close>

definition runPyOllamaCommand ::
  "configuration \<Rightarrow> (string \<Rightarrow> child) \<Rightarrow> string list \<Rightarrow> effect list \<times> (string + string)" where
  "runPyOllamaCommand config os args =
     (case execAsync os (command config args) of
        Inr (stdout, stderr) \<Rightarrow>
          (Spawn (command config args)
             # (if stderr \<noteq> [] then [ConsoleWarn ''PyOllama stderr:'' stderr] else []),
           Inr stdout)
      | Inl m \<Rightarrow>
          ([Spawn (command config args)], Inl (''PyOllama command failed: '' @ m)))"

subsection \<open>listModels\<close>

definition listModels :: "configuration \<Rightarrow> (string \<Rightarrow> child) \<Rightarrow> effect list" where
  "listModels config os =
     (case runPyOllamaCommand config os [''list''] of
        (es, Inr output) \<Rightarrow> es @ [ShowInformationMessage (''Models:'' @ [CHR 0x0A] @ output)]
      | (es, Inl m) \<Rightarrow> es @ [ShowErrorMessage (''Failed to list models: '' @ m)])"

subsection \<open>startChat\<close>

text \<open>
  \<^verbatim>\<open>answer\<close> is what the input box returns: \<^term>\<open>None\<close> when the user cancels it.
  \<^verbatim>\<open>!modelName\<close> holds for \<^verbatim>\<open>undefined\<close> and for the empty string. The function
  returns the model name the new panel is bound to, if a panel is created.
\<close>

definition startChat :: "string option \<Rightarrow> effect list \<times> string option" where
  "startChat answer =
     (case answer of
        None \<Rightarrow> ([ShowInputBox ''Enter the model name to chat with'' ''e.g., llama3.2''], None)
      | Some modelName \<Rightarrow>
          if modelName = [] then
            ([ShowInputBox ''Enter the model name to chat with'' ''e.g., llama3.2''], None)
          else
            ([ShowInputBox ''Enter the model name to chat with'' ''e.g., llama3.2'',
              CreateWebviewPanel ''pyollamaChat'' (''PyOllama Chat - '' @ modelName)],
             Some modelName))"

text \<open>The callback registered with \<^verbatim>\<open>onDidReceiveMessage\<close> of the panel bound to
  \<^verbatim>\<open>modelName\<close>.\<close>

definition onDidReceiveMessage ::
  "configuration \<Rightarrow> (string \<Rightarrow> child) \<Rightarrow> string \<Rightarrow> message \<Rightarrow> effect list" where
  "onDidReceiveMessage config os modelName msg =
     (if mtype msg = ''sendMessage'' then
        (case runPyOllamaCommand config os [''generate'', modelName, mtext msg] of
           (es, Inr output) \<Rightarrow> es @ [PostMessage \<lparr>mtype = ''response'', mtext = trim output\<rparr>]
         | (es, Inl m) \<Rightarrow> es @ [PostMessage \<lparr>mtype = ''error'', mtext = m\<rparr>])
      else [])"

subsection \<open>generateText\<close>

text \<open>
  \<^verbatim>\<open>editor\<close> is \<^term>\<open>None\<close> when there is no active editor, and otherwise the text
  of its selection, as \<^verbatim>\<open>editor.document.getText(selection)\<close> returns it.
  \<^verbatim>\<open>answer\<close> is what the input box returns when it is shown.
\<close>

definition generateText ::
  "configuration \<Rightarrow> (string \<Rightarrow> child) \<Rightarrow> string option \<Rightarrow> string option \<Rightarrow> effect list" where
  "generateText config os editor answer =
     (case editor of
        None \<Rightarrow> [ShowErrorMessage ''No active editor found'']
      | Some selectedText \<Rightarrow>
          if selectedText = [] then
            [ShowErrorMessage ''Please select some text to use as a prompt'']
          else
            ShowInputBox ''Enter the model name'' ''e.g., llama3.2'' #
            (case answer of
               None \<Rightarrow> []
             | Some modelName \<Rightarrow>
                 if modelName = [] then []
                 else
                   (case runPyOllamaCommand config os
                           [''generate'', modelName, [CHR 0x22] @ selectedText @ [CHR 0x22]] of
                      (es, Inr output) \<Rightarrow>
                        es @ [EditInsert ([CHR 0x0A, CHR 0x0A] @ trim output)]
                    | (es, Inl m) \<Rightarrow>
                        es @ [ShowErrorMessage (''Generation failed: '' @ m)])))"

subsection \<open>The chat view\<close>

text \<open>
  The script of the page that \<^verbatim>\<open>getChatHtml\<close> returns. The conversation is the list
  of children of \<^verbatim>\<open>#chat-container\<close>; \<^verbatim>\<open>addMessage\<close> appends one.
\<close>

record element =
  className :: string
  textContent :: string

definition addMessage :: "string \<Rightarrow> bool \<Rightarrow> element list \<Rightarrow> element list" where
  "addMessage txt isUser chatContainer =
     chatContainer @
       [\<lparr>className = ''message '' @ (if isUser then ''user-message'' else ''assistant-message''),
         textContent = txt\<rparr>]"

text \<open>\<^verbatim>\<open>sendMessage()\<close> of the page, on the content of the input field: the new
  conversation and the messages posted to the bridge.\<close>

definition sendMessage :: "string \<Rightarrow> element list \<Rightarrow> element list \<times> message list" where
  "sendMessage input chatContainer =
     (if trim input \<noteq> [] then
        (addMessage (trim input) True chatContainer,
         [\<lparr>mtype = ''sendMessage'', mtext = trim input\<rparr>])
      else (chatContainer, []))"

text \<open>The listener of the page for messages from the bridge.\<close>

definition onWindowMessage :: "message \<Rightarrow> element list \<Rightarrow> element list" where
  "onWindowMessage msg chatContainer =
     (if mtype msg = ''response'' then addMessage (mtext msg) False chatContainer
      else if mtype msg = ''error'' then addMessage (''Error: '' @ mtext msg) False chatContainer
      else chatContainer)"

subsection \<open>An open chat session\<close>

text \<open>
  The state of an open session: the conversation shown, and the messages the bridge has
  received whose command has not completed yet. Any pending message may complete next,
  with any behaviour of the operating system: the bridge neither queues nor orders them.
  The completion of a command and the arrival of the message it posts at the view are
  one step.
\<close>

record session =
  chatContainer :: "element list"
  pending :: "message list"

definition userSends :: "string \<Rightarrow> session \<Rightarrow> session" where
  "userSends input s =
     \<lparr>chatContainer = fst (sendMessage input (chatContainer s)),
      pending = pending s @ snd (sendMessage input (chatContainer s))\<rparr>"

definition resolve ::
  "configuration \<Rightarrow> string \<Rightarrow> (string \<Rightarrow> child) \<Rightarrow> nat \<Rightarrow> session \<Rightarrow> session" where
  "resolve config modelName os i s =
     \<lparr>chatContainer =
        foldl (\<lambda>c m. onWindowMessage m c) (chatContainer s)
          (posted (onDidReceiveMessage config os modelName (pending s ! i))),
      pending = take i (pending s) @ drop (Suc i) (pending s)\<rparr>"

text \<open>\<open>reach config modelName n s\<close>: the session bound to \<open>modelName\<close> is in state \<open>s\<close>
  after the view has posted \<open>n\<close> messages to the bridge.\<close>

inductive reach :: "configuration \<Rightarrow> string \<Rightarrow> nat \<Rightarrow> session \<Rightarrow> bool"
  for config :: configuration and modelName :: string where
  opened: "reach config modelName 0 \<lparr>chatContainer = [], pending = []\<rparr>"
| sent: "reach config modelName n s \<Longrightarrow>
         reach config modelName (n + length (snd (sendMessage input (chatContainer s))))
           (userSends input s)"
| resolved: "reach config modelName n s \<Longrightarrow> i < length (pending s) \<Longrightarrow>
         reach config modelName n (resolve config modelName os i s)"

definition userTurns :: "element list \<Rightarrow> nat" where
  "userTurns c = length (filter (\<lambda>d. className d = ''message user-message'') c)"

definition replyTurns :: "element list \<Rightarrow> nat" where
  "replyTurns c = length (filter (\<lambda>d. className d = ''message assistant-message'') c)"

subsection \<open>The shell\<close>

text \<open>
  \<^verbatim>\<open>exec\<close> hands the command line to \<^verbatim>\<open>/bin/sh -c\<close>, which is not part of the
  extension. What follows is the part of the shell's word splitting that the properties
  below need: blanks separate words, a double quote opens or closes a quoted part,
  inside which blanks are kept, and letters, digits and \<^verbatim>\<open>/ . _ -\<close> stand for
  themselves. \<open>sh_fields\<close> splits a piece of text in this way; its result is
  \<^term>\<open>None\<close> for a text with an open quote at its end or with any other character,
  whose treatment by the shell is not modelled. \<open>sh_words\<close> gives the words of a
  whole command line, the first of which is the command; it is \<^term>\<open>None\<close> as well
  when that first word is spelled like a reserved word of the shell: written without
  quotes, such a word begins a compound command or is a syntax error, and no command
  with these words is run.
\<close>

definition is_blank :: "char \<Rightarrow> bool" where
  "is_blank c = (c = CHR 0x20 \<or> c = CHR 0x09)"

definition is_plain :: "char \<Rightarrow> bool" where
  "is_plain c =
     (c \<in> set ''abcdefghijklmnopqrstuvwxyzABCDEFGHIJKLMNOPQRSTUVWXYZ0123456789/._-'')"

definition plain_word :: "string \<Rightarrow> bool" where
  "plain_word w = (w \<noteq> [] \<and> list_all is_plain w)"

definition cur :: "string option \<Rightarrow> string" where
  "cur w = (case w of None \<Rightarrow> [] | Some v \<Rightarrow> v)"

text \<open>\<open>sh_scan q w s\<close>: \<open>q\<close> holds inside double quotes, \<open>w\<close> is the word begun, if
  any.\<close>

fun sh_scan :: "bool \<Rightarrow> string option \<Rightarrow> string \<Rightarrow> string list option" where
  "sh_scan q w [] = (if q then None else Some (case w of None \<Rightarrow> [] | Some v \<Rightarrow> [v]))"
| "sh_scan q w (c # cs) =
     (if c = CHR 0x22 then sh_scan (\<not> q) (Some (cur w)) cs
      else if is_blank c then
        (if q then sh_scan q (Some (cur w @ [c])) cs
         else case w of
                None \<Rightarrow> sh_scan False None cs
              | Some v \<Rightarrow> map_option ((#) v) (sh_scan False None cs))
      else if is_plain c then sh_scan q (Some (cur w @ [c])) cs
      else None)"

definition sh_fields :: "string \<Rightarrow> string list option" where
  "sh_fields s = sh_scan False None s"

text \<open>The reserved words of the POSIX shell that are made of letters, and those that
  bash and ksh add.\<close>

definition reserved :: "string list" where
  "reserved = [''case'', ''do'', ''done'', ''elif'', ''else'', ''esac'', ''fi'', ''for'',
               ''if'', ''in'', ''then'', ''until'', ''while'',
               ''function'', ''select'', ''time'', ''coproc'']"

definition sh_words :: "string \<Rightarrow> string list option" where
  "sh_words s =
     (case sh_fields s of
        None \<Rightarrow> None
      | Some [] \<Rightarrow> Some []
      | Some (w # ws) \<Rightarrow> if w \<in> set reserved then None else Some (w # ws))"

text \<open>The argument vector that section 4.1 of the specification gives for a command:
  the settings and the arguments, one word each.\<close>

definition spec_tokens :: "configuration \<Rightarrow> string list \<Rightarrow> string list" where
  "spec_tokens config args =
     [getPythonPath config, ''-m'', ''pyollama'', ''--model-dir'', getModelDir config] @ args"

definition failed :: "child \<Rightarrow> bool" where
  "failed c = (case c of SpawnError m \<Rightarrow> True | Exit status out err \<Rightarrow> status \<noteq> 0)"

section \<open>Properties\<close>

subsection \<open>Effects of the bridge functions\<close>

lemma posted_append: "posted (es @ fs) = posted es @ posted fs"
  by (induction es rule: posted.induct) simp_all

lemma spawned_append: "spawned (es @ fs) = spawned es @ spawned fs"
  by (induction es rule: spawned.induct) simp_all

lemma posted_runPyOllamaCommand: "posted (fst (runPyOllamaCommand config os args)) = []"
  by (simp add: runPyOllamaCommand_def split: sum.splits)

lemma spawned_runPyOllamaCommand:
  "spawned (fst (runPyOllamaCommand config os args)) = [command config args]"
  by (simp add: runPyOllamaCommand_def split: sum.splits)

lemma spawned_onDidReceiveMessage:
  "spawned (onDidReceiveMessage config os modelName msg) =
     (if mtype msg = ''sendMessage'' then [command config [''generate'', modelName, mtext msg]]
      else [])"
proof (cases "runPyOllamaCommand config os [''generate'', modelName, mtext msg]")
  case (Pair es r)
  then have "spawned es = [command config [''generate'', modelName, mtext msg]]"
    using spawned_runPyOllamaCommand [of config os "[''generate'', modelName, mtext msg]"]
    by simp
  with Pair show ?thesis
    by (cases r) (simp_all add: onDidReceiveMessage_def spawned_append)
qed

lemma spawned_generateText:
  assumes "selectedText \<noteq> []" and "modelName \<noteq> []"
  shows "spawned (generateText config os (Some selectedText) (Some modelName)) =
           [command config [''generate'', modelName, [CHR 0x22] @ selectedText @ [CHR 0x22]]]"
proof (cases "runPyOllamaCommand config os
                [''generate'', modelName, [CHR 0x22] @ selectedText @ [CHR 0x22]]")
  case (Pair es r)
  then have "spawned es =
      [command config [''generate'', modelName, [CHR 0x22] @ selectedText @ [CHR 0x22]]]"
    using spawned_runPyOllamaCommand
      [of config os "[''generate'', modelName, [CHR 0x22] @ selectedText @ [CHR 0x22]]"]
    by simp
  with Pair assms show ?thesis
    by (cases r) (simp_all add: generateText_def spawned_append)
qed

lemma onDidReceiveMessage_posts_one:
  assumes "mtype msg = ''sendMessage''"
  shows "\<exists>m. posted (onDidReceiveMessage config os modelName msg) = [m]
             \<and> (mtype m = ''response'' \<or> mtype m = ''error'')"
proof (cases "runPyOllamaCommand config os [''generate'', modelName, mtext msg]")
  case (Pair es r)
  then have "posted es = []"
    using posted_runPyOllamaCommand [of config os "[''generate'', modelName, mtext msg]"]
    by simp
  with Pair assms show ?thesis
    by (cases r) (simp_all add: onDidReceiveMessage_def posted_append)
qed

subsection \<open>Word splitting of the command line\<close>

text \<open>Two argument arrays that differ only in where one argument ends give the same
  command line: \<^verbatim>\<open>join\<close> keeps no trace of the boundaries.\<close>

lemma command_forgets_boundary:
  "command config [''generate'', m, a @ '' '' @ b] = command config [''generate'', m, a, b]"
  by (simp add: command_def)

text \<open>Text that is split on its own and is followed by a blank contributes its words,
  and what follows is split on its own.\<close>

lemma sh_scan_append:
  "sh_scan q w a = Some x \<Longrightarrow>
     sh_scan q w (a @ CHR 0x20 # b) = map_option ((@) x) (sh_scan False None b)"
proof (induction q w a arbitrary: x rule: sh_scan.induct)
  case (1 q w)
  then show ?case
    by (cases w; cases "sh_scan False None b") (auto simp: is_blank_def split: if_splits)
next
  case (2 q w c cs)
  show ?case
  proof (cases "c = CHR 0x22")
    case True
    with 2 show ?thesis by simp
  next
    case nq: False
    show ?thesis
    proof (cases "is_blank c")
      case True
      show ?thesis
      proof (cases q)
        case True
        with 2 nq \<open>is_blank c\<close> show ?thesis by simp
      next
        case False
        show ?thesis
        proof (cases w)
          case None
          with 2 nq \<open>is_blank c\<close> False show ?thesis by simp
        next
          case (Some v)
          with "2.prems" nq \<open>is_blank c\<close> False
          obtain y where y: "sh_scan False None cs = Some y" "x = v # y"
            by auto
          with "2.IH"(4) [OF nq \<open>is_blank c\<close> _ Some y(1)] False
          have "sh_scan False None (cs @ CHR 0x20 # b)
                  = map_option ((@) y) (sh_scan False None b)"
            by simp
          with Some nq \<open>is_blank c\<close> False y show ?thesis
            by (simp add: option.map_comp comp_def)
        qed
      qed
    next
      case False
      with 2 nq show ?thesis by (simp split: if_splits)
    qed
  qed
qed

lemma sh_fields_append:
  "sh_fields a = Some x \<Longrightarrow> sh_fields (a @ '' '' @ b) = map_option ((@) x) (sh_fields b)"
  using sh_scan_append [of False None a x b] by (simp add: sh_fields_def)

lemma sh_scan_plain:
  "list_all is_plain v \<Longrightarrow> sh_scan False (Some u) v = Some [u @ v]"
proof (induction v arbitrary: u)
  case Nil
  then show ?case by simp
next
  case (Cons c v)
  have c: "c \<noteq> CHR 0x22" "\<not> is_blank c" "is_plain c"
    using Cons.prems by (auto simp: is_plain_def is_blank_def)
  with Cons show ?case by (simp add: cur_def)
qed

lemma sh_fields_plain: "plain_word v \<Longrightarrow> sh_fields v = Some [v]"
proof -
  assume "plain_word v"
  then obtain c cs where v: "v = c # cs" "is_plain c" "list_all is_plain cs"
    by (cases v) (auto simp: plain_word_def)
  have c: "c \<noteq> CHR 0x22" "\<not> is_blank c"
    using v(2) by (auto simp: is_plain_def is_blank_def)
  with v sh_scan_plain [of cs "[c]"] show ?thesis
    by (simp add: sh_fields_def cur_def)
qed

lemma plain_literals:
  "plain_word ''-m''" "plain_word ''pyollama''" "plain_word ''--model-dir''"
  by (simp_all add: plain_word_def is_plain_def)

text \<open>
  Claim C1. The prompt of a generate request reaches the runner as one unmodified
  argument, at the chat call site and at the one-shot call site. The code does not do
  this. The chat callback puts the text of the message into the command line without
  quotes, so the shell splits the prompt \<^verbatim>\<open>hello world\<close> into the two arguments
  \<^verbatim>\<open>hello\<close> and \<^verbatim>\<open>world\<close>. The one-shot operation wraps the selection in double quotes
  without escaping the quotes inside it, so the selection \<^verbatim>\<open>say "hi there"\<close> arrives as
  the two arguments \<^verbatim>\<open>say hi\<close> and \<^verbatim>\<open>there\<close>.
\<close>

theorem prompt_split_at_both_call_sites:
  "map sh_words
     (spawned (onDidReceiveMessage \<lparr>pythonPath = None, modelDir = Some ''/models''\<rparr> os
        ''llama3.2'' \<lparr>mtype = ''sendMessage'', mtext = ''hello world''\<rparr>))
     = [Some [''python'', ''-m'', ''pyollama'', ''--model-dir'', ''/models'',
              ''generate'', ''llama3.2'', ''hello'', ''world'']]
   \<and> map sh_words
     (spawned (generateText \<lparr>pythonPath = None, modelDir = Some ''/models''\<rparr> os
        (Some (''say '' @ [CHR 0x22] @ ''hi there'' @ [CHR 0x22])) (Some ''llama3.2'')))
     = [Some [''python'', ''-m'', ''pyollama'', ''--model-dir'', ''/models'',
              ''generate'', ''llama3.2'', ''say hi'', ''there'']]"
proof
  show "map sh_words
     (spawned (onDidReceiveMessage \<lparr>pythonPath = None, modelDir = Some ''/models''\<rparr> os
        ''llama3.2'' \<lparr>mtype = ''sendMessage'', mtext = ''hello world''\<rparr>))
     = [Some [''python'', ''-m'', ''pyollama'', ''--model-dir'', ''/models'',
              ''generate'', ''llama3.2'', ''hello'', ''world'']]"
    by (simp add: spawned_onDidReceiveMessage sh_words_def sh_fields_def reserved_def
          command_def getPythonPath_def getModelDir_def is_blank_def is_plain_def cur_def)
  have "spawned (generateText \<lparr>pythonPath = None, modelDir = Some ''/models''\<rparr> os
        (Some (''say '' @ [CHR 0x22] @ ''hi there'' @ [CHR 0x22])) (Some ''llama3.2''))
      = [command \<lparr>pythonPath = None, modelDir = Some ''/models''\<rparr>
           [''generate'', ''llama3.2'',
            [CHR 0x22] @ (''say '' @ [CHR 0x22] @ ''hi there'' @ [CHR 0x22]) @ [CHR 0x22]]]"
    by (rule spawned_generateText) simp_all
  then show "map sh_words
     (spawned (generateText \<lparr>pythonPath = None, modelDir = Some ''/models''\<rparr> os
        (Some (''say '' @ [CHR 0x22] @ ''hi there'' @ [CHR 0x22])) (Some ''llama3.2'')))
     = [Some [''python'', ''-m'', ''pyollama'', ''--model-dir'', ''/models'',
              ''generate'', ''llama3.2'', ''say hi'', ''there'']]"
    by (simp add: sh_words_def sh_fields_def reserved_def command_def getPythonPath_def
          getModelDir_def is_blank_def is_plain_def cur_def)
qed

text \<open>
  Claim C2, as stated: a model directory that contains a space is still passed as the
  single argument of \<^verbatim>\<open>--model-dir\<close>. It is not: the directory \<^verbatim>\<open>/my models\<close> is put
  into the command line without quotes and the shell splits it, so the runner gets
  \<^verbatim>\<open>/my\<close> as the model directory and \<^verbatim>\<open>models\<close> as a further argument.
\<close>

theorem modelDir_with_space_counterexample:
  "sh_words (command \<lparr>pythonPath = Some ''python'', modelDir = Some ''/my models''\<rparr> [''list''])
     = Some [''python'', ''-m'', ''pyollama'', ''--model-dir'', ''/my'', ''models'', ''list'']
   \<and> sh_words (command \<lparr>pythonPath = Some ''python'', modelDir = Some ''/my models''\<rparr> [''list''])
     \<noteq> Some (spec_tokens \<lparr>pythonPath = Some ''python'', modelDir = Some ''/my models''\<rparr> [''list''])"
  by (simp add: sh_words_def sh_fields_def reserved_def command_def spec_tokens_def
        getPythonPath_def getModelDir_def is_blank_def is_plain_def cur_def)

text \<open>
  Claim C2, amended. The model directory is put into the command line as it is, without
  quotes, so the shell splits it like the rest of the line. Let the interpreter path be
  a non-empty word of letters, digits and \<^verbatim>\<open>/ . _ -\<close> that is not a reserved word of
  the shell, and let the model directory and the joined arguments consist of such
  characters, blanks and closed double quotes. Then the words of the command are the
  interpreter path, \<^verbatim>\<open>-m\<close>, \<^verbatim>\<open>pyollama\<close>, \<^verbatim>\<open>--model-dir\<close>, the words that the shell
  splits the model directory into, and the words of the arguments. A model directory
  that is itself a non-empty word of letters, digits and \<^verbatim>\<open>/ . _ -\<close> is split into
  that one word, and so is the single argument of \<^verbatim>\<open>--model-dir\<close>.
\<close>

theorem modelDir_split_by_shell:
  assumes "plain_word (getPythonPath config)"
    and "getPythonPath config \<notin> set reserved"
    and "sh_fields (getModelDir config) = Some ds"
    and "sh_fields (join_sp args) = Some ws"
  shows "sh_words (command config args) =
           Some ([getPythonPath config, ''-m'', ''pyollama'', ''--model-dir''] @ ds @ ws)
         \<and> (plain_word (getModelDir config) \<longrightarrow> ds = [getModelDir config])"
proof
  let ?r4 = "getModelDir config @ '' '' @ join_sp args"
  let ?r3 = "''--model-dir'' @ '' '' @ ?r4"
  let ?r2 = "''pyollama'' @ '' '' @ ?r3"
  let ?r1 = "''-m'' @ '' '' @ ?r2"
  have 4: "sh_fields ?r4 = Some (ds @ ws)"
    using sh_fields_append [OF assms(3), of "join_sp args"] assms(4) by simp
  have 3: "sh_fields ?r3 = Some (''--model-dir'' # ds @ ws)"
    using sh_fields_append [OF sh_fields_plain [OF plain_literals(3)], of ?r4]
    by (simp only: 4) simp
  have 2: "sh_fields ?r2 = Some (''pyollama'' # ''--model-dir'' # ds @ ws)"
    using sh_fields_append [OF sh_fields_plain [OF plain_literals(2)], of ?r3]
    by (simp only: 3) simp
  have 1: "sh_fields ?r1 = Some (''-m'' # ''pyollama'' # ''--model-dir'' # ds @ ws)"
    using sh_fields_append [OF sh_fields_plain [OF plain_literals(1)], of ?r2]
    by (simp only: 2) simp
  have 0: "sh_fields (getPythonPath config @ '' '' @ ?r1)
             = Some (getPythonPath config # ''-m'' # ''pyollama'' # ''--model-dir'' # ds @ ws)"
    using sh_fields_append [OF sh_fields_plain [OF assms(1)], of ?r1]
    by (simp only: 1) simp
  have "command config args = getPythonPath config @ '' '' @ ?r1"
    by (simp add: command_def)
  then have "sh_fields (command config args)
      = Some (getPythonPath config # ''-m'' # ''pyollama'' # ''--model-dir'' # ds @ ws)"
    by (simp only: 0)
  with assms(2)
  show "sh_words (command config args) =
           Some ([getPythonPath config, ''-m'', ''pyollama'', ''--model-dir''] @ ds @ ws)"
    by (simp add: sh_words_def)
  show "plain_word (getModelDir config) \<longrightarrow> ds = [getModelDir config]"
    using assms(3) sh_fields_plain [of "getModelDir config"] by auto
qed

theorem modelDir_split_by_shell_witness:
  "plain_word (getPythonPath \<lparr>pythonPath = None, modelDir = Some ''/srv/models''\<rparr>)
   \<and> getPythonPath \<lparr>pythonPath = None, modelDir = Some ''/srv/models''\<rparr> \<notin> set reserved
   \<and> sh_fields (getModelDir \<lparr>pythonPath = None, modelDir = Some ''/srv/models''\<rparr>)
       = Some [''/srv/models'']
   \<and> sh_fields (join_sp [''generate'', ''llama3.2'', [CHR 0x22] @ ''hi there'' @ [CHR 0x22]])
       = Some [''generate'', ''llama3.2'', ''hi there'']
   \<and> plain_word (getModelDir \<lparr>pythonPath = None, modelDir = Some ''/srv/models''\<rparr>)
   \<and> sh_words (command \<lparr>pythonPath = None, modelDir = Some ''/srv/models''\<rparr>
                 [''generate'', ''llama3.2'', [CHR 0x22] @ ''hi there'' @ [CHR 0x22]])
       = Some [''python'', ''-m'', ''pyollama'', ''--model-dir'', ''/srv/models'',
               ''generate'', ''llama3.2'', ''hi there'']"
proof -
  let ?c = "\<lparr>pythonPath = None, modelDir = Some ''/srv/models''\<rparr>"
  let ?a = "[''generate'', ''llama3.2'', [CHR 0x22] @ ''hi there'' @ [CHR 0x22]]"
  have p: "plain_word (getPythonPath ?c)"
    by (simp add: getPythonPath_def plain_word_def is_plain_def)
  have r: "getPythonPath ?c \<notin> set reserved"
    by (simp add: getPythonPath_def reserved_def)
  have d: "sh_fields (getModelDir ?c) = Some [''/srv/models'']"
    by (simp add: getModelDir_def sh_fields_def is_blank_def is_plain_def cur_def)
  have a: "sh_fields (join_sp ?a) = Some [''generate'', ''llama3.2'', ''hi there'']"
    by (simp add: sh_fields_def is_blank_def is_plain_def cur_def)
  have pd: "plain_word (getModelDir ?c)"
    by (simp add: getModelDir_def plain_word_def is_plain_def)
  show ?thesis
    using p r d a pd modelDir_split_by_shell [OF p r d a]
    by (simp add: getPythonPath_def getModelDir_def)
qed

subsection \<open>The turns of a chat session\<close>

lemma userTurns_addMessage:
  "userTurns (addMessage t b c) = userTurns c + (if b then 1 else 0)"
  by (simp add: userTurns_def addMessage_def)

lemma replyTurns_addMessage:
  "replyTurns (addMessage t b c) = replyTurns c + (if b then 0 else 1)"
  by (simp add: replyTurns_def addMessage_def)

lemma onWindowMessage_reply:
  "mtype m = ''response'' \<or> mtype m = ''error'' \<Longrightarrow>
     userTurns (onWindowMessage m c) = userTurns c
     \<and> replyTurns (onWindowMessage m c) = Suc (replyTurns c)"
  by (auto simp: onWindowMessage_def userTurns_addMessage replyTurns_addMessage)

lemma pending_resolve:
  "pending (resolve config modelName os i s) = take i (pending s) @ drop (Suc i) (pending s)"
  by (simp add: resolve_def)

text \<open>Only \<^verbatim>\<open>sendMessage\<close> messages are ever pending.\<close>

lemma pending_sendMessage:
  "reach config modelName n s \<Longrightarrow> \<forall>m \<in> set (pending s). mtype m = ''sendMessage''"
proof (induction rule: reach.induct)
  case opened
  then show ?case by simp
next
  case (sent n s input)
  then show ?case by (auto simp: userSends_def sendMessage_def)
next
  case (resolved n s i os)
  then show ?case by (auto simp: resolve_def dest: in_set_takeD in_set_dropD)
qed

text \<open>The invariant: every message posted has its user turn, and has either its reply
  turn or is still pending.\<close>

lemma reach_counts:
  "reach config modelName n s \<Longrightarrow>
     userTurns (chatContainer s) = n
     \<and> replyTurns (chatContainer s) + length (pending s) = n"
proof (induction rule: reach.induct)
  case opened
  then show ?case by (simp add: userTurns_def replyTurns_def)
next
  case (sent n s input)
  then show ?case
    by (simp add: userSends_def sendMessage_def userTurns_addMessage replyTurns_addMessage)
next
  case (resolved n s i os)
  from resolved.hyps have "mtype (pending s ! i) = ''sendMessage''"
    using pending_sendMessage by fastforce
  then obtain m where m: "posted (onDidReceiveMessage config os modelName (pending s ! i)) = [m]"
    "mtype m = ''response'' \<or> mtype m = ''error''"
    using onDidReceiveMessage_posts_one by blast
  have len: "length (take i (pending s) @ drop (Suc i) (pending s)) = length (pending s) - 1"
    using resolved.hyps(2) by simp
  from resolved.IH resolved.hyps(2) m len onWindowMessage_reply [OF m(2), of "chatContainer s"]
  show ?case by (simp add: resolve_def)
qed

text \<open>
  Claim C3. In an open chat session, once every one of the \<open>n\<close> messages sent has been
  resolved, the conversation holds exactly \<open>n\<close> user turns and exactly \<open>n\<close> reply turns
  (an answer or an error each), whatever the order of completion and whatever commands
  succeeded or failed.
\<close>

theorem chat_turns:
  "reach config modelName n s \<Longrightarrow> pending s = [] \<Longrightarrow>
     userTurns (chatContainer s) = n \<and> replyTurns (chatContainer s) = n"
  using reach_counts by fastforce

theorem chat_turns_witness:
  "reach \<lparr>pythonPath = None, modelDir = None\<rparr> ''m'' 2
     (resolve \<lparr>pythonPath = None, modelDir = None\<rparr> ''m'' (\<lambda>c. Exit 0 ''hello'' []) 0
       (resolve \<lparr>pythonPath = None, modelDir = None\<rparr> ''m'' (\<lambda>c. Exit 1 [] ''boom'') 1
         (userSends ''yo'' (userSends ''hi'' \<lparr>chatContainer = [], pending = []\<rparr>))))
   \<and> map className (chatContainer
     (resolve \<lparr>pythonPath = None, modelDir = None\<rparr> ''m'' (\<lambda>c. Exit 0 ''hello'' []) 0
       (resolve \<lparr>pythonPath = None, modelDir = None\<rparr> ''m'' (\<lambda>c. Exit 1 [] ''boom'') 1
         (userSends ''yo'' (userSends ''hi'' \<lparr>chatContainer = [], pending = []\<rparr>)))))
     = [''message user-message'', ''message user-message'',
        ''message assistant-message'', ''message assistant-message'']
   \<and> userTurns (chatContainer
     (resolve \<lparr>pythonPath = None, modelDir = None\<rparr> ''m'' (\<lambda>c. Exit 0 ''hello'' []) 0
       (resolve \<lparr>pythonPath = None, modelDir = None\<rparr> ''m'' (\<lambda>c. Exit 1 [] ''boom'') 1
         (userSends ''yo'' (userSends ''hi'' \<lparr>chatContainer = [], pending = []\<rparr>))))) = 2
   \<and> replyTurns (chatContainer
     (resolve \<lparr>pythonPath = None, modelDir = None\<rparr> ''m'' (\<lambda>c. Exit 0 ''hello'' []) 0
       (resolve \<lparr>pythonPath = None, modelDir = None\<rparr> ''m'' (\<lambda>c. Exit 1 [] ''boom'') 1
         (userSends ''yo'' (userSends ''hi'' \<lparr>chatContainer = [], pending = []\<rparr>))))) = 2"
proof -
  let ?c = "\<lparr>pythonPath = None, modelDir = None\<rparr>"
  let ?s0 = "\<lparr>chatContainer = [], pending = []\<rparr>"
  let ?s1 = "userSends ''hi'' ?s0"
  let ?s2 = "userSends ''yo'' ?s1"
  let ?s3 = "resolve ?c ''m'' (\<lambda>c. Exit 1 [] ''boom'') 1 ?s2"
  let ?s4 = "resolve ?c ''m'' (\<lambda>c. Exit 0 ''hello'' []) 0 ?s3"
  have t: "trim ''hi'' = ''hi''" "trim ''yo'' = ''yo''" "trim ''hello'' = ''hello''"
    by (simp_all add: trim_def trimEnd_def is_whitespace_def)
  have p1: "pending ?s1 = [\<lparr>mtype = ''sendMessage'', mtext = ''hi''\<rparr>]"
    by (simp add: userSends_def sendMessage_def t)
  have p2: "pending ?s2 = [\<lparr>mtype = ''sendMessage'', mtext = ''hi''\<rparr>,
                           \<lparr>mtype = ''sendMessage'', mtext = ''yo''\<rparr>]"
    by (simp add: userSends_def sendMessage_def t)
  have p3: "pending ?s3 = [\<lparr>mtype = ''sendMessage'', mtext = ''hi''\<rparr>]"
    by (simp add: pending_resolve userSends_def sendMessage_def t)
  have p4: "pending ?s4 = []"
    by (simp add: pending_resolve userSends_def sendMessage_def t)
  have r0: "reach ?c ''m'' 0 ?s0"
    by (rule reach.opened)
  have r1: "reach ?c ''m'' 1 ?s1"
    using reach.sent [OF r0, of "''hi''"] by (simp add: sendMessage_def t)
  have r2: "reach ?c ''m'' 2 ?s2"
    using reach.sent [OF r1, of "''yo''"] by (simp add: sendMessage_def t numeral_2_eq_2)
  have r3: "reach ?c ''m'' 2 ?s3"
    by (rule reach.resolved [OF r2]) (simp only: p2, simp)
  have r4: "reach ?c ''m'' 2 ?s4"
    by (rule reach.resolved [OF r3]) (simp only: p3, simp)
  have c4: "map className (chatContainer ?s4)
     = [''message user-message'', ''message user-message'',
        ''message assistant-message'', ''message assistant-message'']"
    by (simp add: resolve_def userSends_def sendMessage_def t onDidReceiveMessage_def
          runPyOllamaCommand_def execAsync_def byteLength_def maxBuffer_def
          onWindowMessage_def addMessage_def)
  from r4 c4 chat_turns [OF r4 p4] show ?thesis by simp
qed

subsection \<open>Success and failure of a command\<close>

text \<open>
  Claim C4. When the process of a command cannot be spawned or exits with a status
  other than zero, \<open>runPyOllamaCommand\<close> spawns once and throws one error, whose
  message is not empty; it does not return a value.
\<close>

theorem runPyOllamaCommand_failure:
  "failed (os (command config args)) \<Longrightarrow>
     \<exists>m. runPyOllamaCommand config os args = ([Spawn (command config args)], Inl m) \<and> m \<noteq> []"
  by (cases "os (command config args)")
     (simp_all add: failed_def runPyOllamaCommand_def execAsync_def)

theorem runPyOllamaCommand_failure_witness:
  "failed (SpawnError []) \<and>
   (\<exists>m. runPyOllamaCommand \<lparr>pythonPath = None, modelDir = None\<rparr> (\<lambda>c. SpawnError []) [''list'']
           = ([Spawn (command \<lparr>pythonPath = None, modelDir = None\<rparr> [''list''])], Inl m)
         \<and> m \<noteq> [])"
  using runPyOllamaCommand_failure
    [of "\<lambda>c. SpawnError []" "\<lparr>pythonPath = None, modelDir = None\<rparr>" "[''list'']"]
  by (simp add: failed_def)

lemma byteLength_replicate:
  "byteLength (replicate n c) = n * (if of_char c < (128::nat) then 1 else 2)"
  by (induction n) (simp_all add: byteLength_def)

text \<open>
  Claim C5, as stated: when the process exits with status zero the call succeeds and
  returns the standard output, and standard error never turns it into a failure. This
  fails: a process that writes \<^verbatim>\<open>ok\<close> to standard output and one byte more than
  1 MiB to standard error, and exits with status zero, makes \<open>runPyOllamaCommand\<close>
  throw.
\<close>

theorem stderr_over_maxBuffer_counterexample:
  "runPyOllamaCommand \<lparr>pythonPath = None, modelDir = None\<rparr>
       (\<lambda>c. Exit 0 ''ok'' (replicate 1048577 CHR ''w'')) [''list'']
     = ([Spawn ''python -m pyollama --model-dir ~/.ollama/models list''],
        Inl ''PyOllama command failed: stderr maxBuffer length exceeded'')"
  by (simp add: runPyOllamaCommand_def execAsync_def byteLength_replicate maxBuffer_def
        command_def getPythonPath_def getModelDir_def)
     (simp add: byteLength_def)

text \<open>
  Claim C5, amended. When the process exits with status zero and has written no more
  than \<^verbatim>\<open>maxBuffer\<close> (1 MiB) to each of standard output and standard error,
  \<open>runPyOllamaCommand\<close> returns the captured standard output, also when standard
  error is not empty: standard error is then written to the console as a warning and
  nothing else depends on it.
\<close>

theorem runPyOllamaCommand_exit_zero:
  "os (command config args) = Exit 0 out err \<Longrightarrow>
   byteLength out \<le> maxBuffer \<Longrightarrow> byteLength err \<le> maxBuffer \<Longrightarrow>
     runPyOllamaCommand config os args =
       (Spawn (command config args)
          # (if err = [] then [] else [ConsoleWarn ''PyOllama stderr:'' err]),
        Inr out)"
  by (simp add: runPyOllamaCommand_def execAsync_def)

theorem runPyOllamaCommand_exit_zero_witness:
  "byteLength ''llama3.2'' \<le> maxBuffer \<and> byteLength ''warning: slow disk'' \<le> maxBuffer
   \<and> runPyOllamaCommand \<lparr>pythonPath = None, modelDir = None\<rparr>
       (\<lambda>c. Exit 0 ''llama3.2'' ''warning: slow disk'') [''list'']
     = ([Spawn (command \<lparr>pythonPath = None, modelDir = None\<rparr> [''list'']),
         ConsoleWarn ''PyOllama stderr:'' ''warning: slow disk''],
        Inr ''llama3.2'')"
proof -
  have b: "byteLength ''llama3.2'' \<le> maxBuffer" "byteLength ''warning: slow disk'' \<le> maxBuffer"
    by (simp_all add: byteLength_def maxBuffer_def)
  show ?thesis
    using b runPyOllamaCommand_exit_zero
      [of "\<lambda>c. Exit 0 ''llama3.2'' ''warning: slow disk''"
          "\<lparr>pythonPath = None, modelDir = None\<rparr>" "[''list'']"
          "''llama3.2''" "''warning: slow disk''", OF _ b]
    by simp
qed

subsection \<open>Where the output is trimmed\<close>

text \<open>
  Claim C6, as stated: for a command that exits 0 the executor returns the standard
  output with the trailing white space removed, and every caller receives that form. It
  does not: for the standard output \<^verbatim>\<open>hello\<close>, a line feed and two spaces,
  \<open>runPyOllamaCommand\<close> returns all eight characters, and \<open>listModels\<close> shows them.
\<close>

theorem executor_untrimmed_counterexample:
  "snd (runPyOllamaCommand \<lparr>pythonPath = None, modelDir = None\<rparr>
          (\<lambda>c. Exit 0 (''hello'' @ [CHR 0x0A] @ ''  '') []) [''list''])
     = Inr (''hello'' @ [CHR 0x0A] @ ''  '')
   \<and> trimEnd (''hello'' @ [CHR 0x0A] @ ''  '') = ''hello''
   \<and> snd (runPyOllamaCommand \<lparr>pythonPath = None, modelDir = None\<rparr>
          (\<lambda>c. Exit 0 (''hello'' @ [CHR 0x0A] @ ''  '') []) [''list''])
     \<noteq> Inr (trimEnd (''hello'' @ [CHR 0x0A] @ ''  ''))
   \<and> listModels \<lparr>pythonPath = None, modelDir = None\<rparr>
          (\<lambda>c. Exit 0 (''hello'' @ [CHR 0x0A] @ ''  '') [])
     = [Spawn ''python -m pyollama --model-dir ~/.ollama/models list'',
        ShowInformationMessage (''Models:'' @ [CHR 0x0A] @ ''hello'' @ [CHR 0x0A] @ ''  '')]"
  by (simp add: runPyOllamaCommand_def execAsync_def byteLength_def maxBuffer_def
        listModels_def command_def getPythonPath_def getModelDir_def trimEnd_def
        is_whitespace_def)

text \<open>
  Claim C6, amended. For a command that exits 0 having written no more than
  \<^verbatim>\<open>maxBuffer\<close> (1 MiB) to each of standard output and standard error,
  \<open>runPyOllamaCommand\<close> returns the captured standard output unchanged. The chat
  callback and the one-shot generate operation apply \<^verbatim>\<open>trim()\<close> to it, which removes
  white space at both ends: the chat view is posted one response with the trimmed
  output, and the text inserted into the document is two line feeds followed by the
  trimmed output.
\<close>

theorem output_trimmed_by_callers:
  "(os (command config args) = Exit 0 out err
      \<and> byteLength out \<le> maxBuffer \<and> byteLength err \<le> maxBuffer \<longrightarrow>
      snd (runPyOllamaCommand config os args) = Inr out)
   \<and> (os (command config [''generate'', m, p]) = Exit 0 out err
      \<and> byteLength out \<le> maxBuffer \<and> byteLength err \<le> maxBuffer \<longrightarrow>
      posted (onDidReceiveMessage config os m \<lparr>mtype = ''sendMessage'', mtext = p\<rparr>)
        = [\<lparr>mtype = ''response'', mtext = trim out\<rparr>])
   \<and> (p \<noteq> [] \<and> m \<noteq> []
        \<and> os (command config [''generate'', m, [CHR 0x22] @ p @ [CHR 0x22]]) = Exit 0 out err
        \<and> byteLength out \<le> maxBuffer \<and> byteLength err \<le> maxBuffer \<longrightarrow>
      generateText config os (Some p) (Some m)
        = ShowInputBox ''Enter the model name'' ''e.g., llama3.2''
          # Spawn (command config [''generate'', m, [CHR 0x22] @ p @ [CHR 0x22]])
          # (if err = [] then [] else [ConsoleWarn ''PyOllama stderr:'' err])
          @ [EditInsert ([CHR 0x0A, CHR 0x0A] @ trim out)])"
proof (intro conjI impI)
  assume "os (command config args) = Exit 0 out err
      \<and> byteLength out \<le> maxBuffer \<and> byteLength err \<le> maxBuffer"
  then show "snd (runPyOllamaCommand config os args) = Inr out"
    by (simp add: runPyOllamaCommand_def execAsync_def)
next
  assume "os (command config [''generate'', m, p]) = Exit 0 out err
      \<and> byteLength out \<le> maxBuffer \<and> byteLength err \<le> maxBuffer"
  then show "posted (onDidReceiveMessage config os m \<lparr>mtype = ''sendMessage'', mtext = p\<rparr>)
        = [\<lparr>mtype = ''response'', mtext = trim out\<rparr>]"
    by (simp add: onDidReceiveMessage_def runPyOllamaCommand_def execAsync_def)
next
  assume "p \<noteq> [] \<and> m \<noteq> []
        \<and> os (command config [''generate'', m, [CHR 0x22] @ p @ [CHR 0x22]]) = Exit 0 out err
        \<and> byteLength out \<le> maxBuffer \<and> byteLength err \<le> maxBuffer"
  then show "generateText config os (Some p) (Some m)
        = ShowInputBox ''Enter the model name'' ''e.g., llama3.2''
          # Spawn (command config [''generate'', m, [CHR 0x22] @ p @ [CHR 0x22]])
          # (if err = [] then [] else [ConsoleWarn ''PyOllama stderr:'' err])
          @ [EditInsert ([CHR 0x0A, CHR 0x0A] @ trim out)]"
    by (simp add: generateText_def runPyOllamaCommand_def execAsync_def)
qed

theorem output_trimmed_by_callers_witness:
  "byteLength ('' hello'' @ [CHR 0x0A] @ ''  '') \<le> maxBuffer
   \<and> byteLength [] \<le> maxBuffer
   \<and> snd (runPyOllamaCommand \<lparr>pythonPath = None, modelDir = None\<rparr>
          (\<lambda>c. Exit 0 ('' hello'' @ [CHR 0x0A] @ ''  '') []) [''list''])
     = Inr ('' hello'' @ [CHR 0x0A] @ ''  '')
   \<and> posted (onDidReceiveMessage \<lparr>pythonPath = None, modelDir = None\<rparr>
          (\<lambda>c. Exit 0 ('' hello'' @ [CHR 0x0A] @ ''  '') []) ''llama3.2''
          \<lparr>mtype = ''sendMessage'', mtext = ''hi''\<rparr>)
     = [\<lparr>mtype = ''response'', mtext = ''hello''\<rparr>]
   \<and> generateText \<lparr>pythonPath = None, modelDir = None\<rparr>
          (\<lambda>c. Exit 0 ('' hello'' @ [CHR 0x0A] @ ''  '') []) (Some ''hi'') (Some ''llama3.2'')
     = [ShowInputBox ''Enter the model name'' ''e.g., llama3.2'',
        Spawn (command \<lparr>pythonPath = None, modelDir = None\<rparr>
                 [''generate'', ''llama3.2'', [CHR 0x22] @ ''hi'' @ [CHR 0x22]]),
        EditInsert ([CHR 0x0A, CHR 0x0A] @ ''hello'')]"
proof -
  have t: "trim ('' hello'' @ [CHR 0x0A] @ ''  '') = ''hello''"
    by (simp add: trim_def trimEnd_def is_whitespace_def)
  have b: "byteLength ('' hello'' @ [CHR 0x0A] @ ''  '') \<le> maxBuffer"
    "byteLength [] \<le> maxBuffer"
    by (simp_all add: byteLength_def maxBuffer_def)
  show ?thesis
    using b output_trimmed_by_callers
      [of "\<lambda>c. Exit 0 ('' hello'' @ [CHR 0x0A] @ ''  '') []"
          "\<lparr>pythonPath = None, modelDir = None\<rparr>" "[''list'']"
          "'' hello'' @ [CHR 0x0A] @ ''  ''" "[]" "''llama3.2''" "''hi''"]
    by (simp only: t) simp
qed

subsection \<open>Missing input\<close>

text \<open>
  Claim C7. The one-shot generate operation with an empty selection shows the error
  notice and does nothing else: the model name is not asked for and no process is
  spawned, whatever the answer and the operating system would have been.
\<close>

theorem generateText_empty_selection:
  "generateText config os (Some []) answer =
     [ShowErrorMessage ''Please select some text to use as a prompt'']"
  by (simp add: generateText_def)

text \<open>
  Claim C8. When the user cancels the model name prompt of a chat, only the prompt has
  been shown: no panel is created, so no callback is registered and no process can be
  spawned.
\<close>

theorem startChat_cancel:
  "startChat None =
     ([ShowInputBox ''Enter the model name to chat with'' ''e.g., llama3.2''], None)"
  by (simp add: startChat_def)

text \<open>
  Claim C9. An empty model name is treated as a cancelled prompt, in the chat and in
  the one-shot generate operation: the operation returns with no panel created and no
  process spawned.
\<close>

theorem empty_model_name_as_cancel:
  "startChat (Some []) = startChat None
   \<and> snd (startChat (Some [])) = None
   \<and> panels (fst (startChat (Some []))) = []
   \<and> generateText config os editor (Some []) = generateText config os editor None
   \<and> spawned (generateText config os editor (Some [])) = []
   \<and> panels (generateText config os editor (Some [])) = []"
  by (cases editor) (simp_all add: startChat_def generateText_def)

subsection \<open>The two generate call sites\<close>

text \<open>
  Claim C10. For the same model and prompt, the chat callback and the one-shot generate
  operation spawn different command lines: the chat passes the prompt as it is, the
  one-shot operation puts it between double quotes.
\<close>

theorem chat_and_oneshot_commands_differ:
  "spawned (onDidReceiveMessage config os m \<lparr>mtype = ''sendMessage'', mtext = p\<rparr>)
     = [command config [''generate'', m, p]]
   \<and> (p \<noteq> [] \<and> m \<noteq> [] \<longrightarrow>
        spawned (generateText config os' (Some p) (Some m))
          = [command config [''generate'', m, [CHR 0x22] @ p @ [CHR 0x22]]])
   \<and> command config [''generate'', m, p]
       \<noteq> command config [''generate'', m, [CHR 0x22] @ p @ [CHR 0x22]]"
proof (intro conjI impI)
  show "spawned (onDidReceiveMessage config os m \<lparr>mtype = ''sendMessage'', mtext = p\<rparr>)
     = [command config [''generate'', m, p]]"
    by (simp add: spawned_onDidReceiveMessage)
next
  assume "p \<noteq> [] \<and> m \<noteq> []"
  then show "spawned (generateText config os' (Some p) (Some m))
          = [command config [''generate'', m, [CHR 0x22] @ p @ [CHR 0x22]]]"
    by (simp add: spawned_generateText)
next
  show "command config [''generate'', m, p]
       \<noteq> command config [''generate'', m, [CHR 0x22] @ p @ [CHR 0x22]]"
    by (simp add: command_def)
qed

theorem chat_and_oneshot_commands_differ_witness:
  "spawned (onDidReceiveMessage \<lparr>pythonPath = None, modelDir = None\<rparr> (\<lambda>c. Exit 0 [] [])
      ''llama3.2'' \<lparr>mtype = ''sendMessage'', mtext = ''hi''\<rparr>)
     = [''python -m pyollama --model-dir ~/.ollama/models generate llama3.2 hi'']
   \<and> spawned (generateText \<lparr>pythonPath = None, modelDir = None\<rparr> (\<lambda>c. Exit 0 [] [])
      (Some ''hi'') (Some ''llama3.2''))
     = [''python -m pyollama --model-dir ~/.ollama/models generate llama3.2 ''
          @ [CHR 0x22] @ ''hi'' @ [CHR 0x22]]"
  using chat_and_oneshot_commands_differ
    [of "\<lparr>pythonPath = None, modelDir = None\<rparr>" "\<lambda>c. Exit 0 [] []" "''llama3.2''" "''hi''"
        "\<lambda>c. Exit 0 [] []"]
  by (simp add: command_def getPythonPath_def getModelDir_def)

end
